theory Spec2Isabelle
  imports Main
begin

section \<open>Go values shared by the packages\<close>

text \<open>
  Go's \<open>error\<close> interface value: \<open>None\<close> is \<open>nil\<close>. The constructors are the kinds of
  error the modelled code can tell apart or receive: a missing path and a permission problem
  from \<open>os.Stat\<close>, an executable that is not found and a process that ended with a
  non-zero status from \<open>os/exec\<close>, and any other error with its message.
\<close>

datatype error =
    ErrNotExist
  | ErrPermission
  | ErrNotFound
  | ExitError int
  | ErrOther string

text \<open>\<open>os.IsNotExist\<close>: false on \<open>nil\<close>, true on the missing-path error only.\<close>

fun IsNotExist :: "error option \<Rightarrow> bool" where
  "IsNotExist None = False"
| "IsNotExist (Some ErrNotExist) = True"
| "IsNotExist (Some _) = False"

text \<open>
  The file system as \<open>os.Stat\<close> shows it. Every caller drops the \<open>FileInfo\<close> and keeps
  the error, so a file system is the function from a path to that error.
\<close>

type_synonym filesystem = "string \<Rightarrow> error option"

text \<open>
  A subprocess, as \<open>exec.Command(name, args...)\<close> runs it: either it could not be
  started, or it ran to its end with an exit status and the bytes it wrote to standard output.
\<close>

datatype process = NotStarted error | Exited int string

type_synonym exec = "string \<Rightarrow> string list \<Rightarrow> process"

text \<open>
  \<open>(*exec.Cmd).Output\<close>: the captured standard output and the error of \<open>Run\<close>, which is
  the start error, or an \<open>*ExitError\<close> when the exit status is not zero. A failure to copy
  the output into the buffer is not modelled.
\<close>

fun Output :: "process \<Rightarrow> string \<times> error option" where
  "Output (NotStarted e) = ([], Some e)"
| "Output (Exited status out) = (out, if status = 0 then None else Some (ExitError status))"

text \<open>
  \<open>strings.NewReplacer(old1, new1, ...).Replace(s)\<close> for old strings of one byte each (the
  only use in the code): the bytes of \<open>s\<close> from left to right, each byte that is an old
  string giving way to its new string, the first pair of the argument list winning.
\<close>

fun Replace :: "(char \<times> string) list \<Rightarrow> string \<Rightarrow> string" where
  "Replace oldnew [] = []"
| "Replace oldnew (c # cs) =
     (case map_of oldnew c of
        Some new \<Rightarrow> new @ Replace oldnew cs
      | None \<Rightarrow> c # Replace oldnew cs)"

section \<open>Package interpreterFinder\<close>

record InterpreterFinder =
  CurrentDir :: string

text \<open>
  \<open>builtinRelativeFilePath\<close> and \<open>exactFilePaths()\<close> are declared once per platform in
  other files of the package, \<open>configurator.ExpandInterpreterCommand\<close> lives in another
  package, and \<open>filepath.Join\<close> is the standard library's. The functions below
  take them as the parameters \<open>builtinRelativeFilePath\<close>, \<open>exactFilePaths\<close>,
  \<open>ExpandInterpreterCommand\<close> and \<open>Join\<close>; \<open>Stat\<close> is the file system and \<open>Command\<close>
  the host's way of running a program.
\<close>

definition HaveBuiltIn ::
  "(string \<Rightarrow> string \<Rightarrow> string) \<Rightarrow> string \<Rightarrow> filesystem \<Rightarrow> InterpreterFinder \<Rightarrow> bool" where
  "HaveBuiltIn Join builtinRelativeFilePath Stat f =
     (let e = Stat (Join (CurrentDir f) builtinRelativeFilePath);
          exists = \<not> IsNotExist e
      in if exists \<and> e = None then True else False)"

definition FindBuiltin ::
  "(string \<Rightarrow> string \<Rightarrow> string) \<Rightarrow> string \<Rightarrow> filesystem \<Rightarrow> InterpreterFinder \<Rightarrow> string" where
  "FindBuiltin Join builtinRelativeFilePath Stat f =
     (if HaveBuiltIn Join builtinRelativeFilePath Stat f
      then Join (CurrentDir f) builtinRelativeFilePath
      else [])"

text \<open>
  \<open>Find\<close>: the loop over the candidate paths, returning at the first one whose stat gives no
  error; \<open>None\<close> is the \<open>nil\<close> pointer returned after the loop.
\<close>

fun Find :: "filesystem \<Rightarrow> string list \<Rightarrow> string option" where
  "Find Stat [] = None"
| "Find Stat (path # paths) =
     (let e = Stat path;
          exists = \<not> IsNotExist e
      in if exists \<and> e = None then Some path else Find Stat paths)"

text \<open>
  \<open>Check\<close>: the named results \<open>(version, e)\<close> as a pair. On an error of \<open>Output\<close> the
  version is the empty string; otherwise the output goes through the replacer that maps line
  feed and carriage return to the empty string.
\<close>

definition Check :: "(string \<Rightarrow> string) \<Rightarrow> exec \<Rightarrow> string \<Rightarrow> string \<times> error option" where
  "Check ExpandInterpreterCommand Command command =
     (let (out, e) = Output (Command (ExpandInterpreterCommand command) [''-version''])
      in if e \<noteq> None then ([], e)
         else (Replace [(CHR 0x0A, []), (CHR 0x0D, [])] out, None))"

section \<open>Package manager: the game record\<close>

text \<open>
  \<open>manager.Game\<close>, with the fields that the command line program and the screens read or
  write.
\<close>

record Game =
  Name :: string
  Title :: string
  Description :: string
  Version :: string
  Languages :: "string list"
  RepositoryName :: string
  Descurl :: string
  Size :: int
  Installed :: bool

section \<open>The command line program\<close>

text \<open>
  What a command does beyond returning: the lines it prints, the help screen, and the calls
  into the manager that change the world. A command's run is the list of these in order,
  together with how it ended: \<open>Inl status\<close> for \<open>os.Exit(status)\<close>, \<open>Inr v\<close> for a
  normal return of \<open>v\<close>.
\<close>

datatype event =
    Print string
  | PrintHelp
  | M_UpdateRepositories
  | M_RunGame Game

type_synonym 'a cli = "event list \<times> (int + 'a)"

text \<open>One statement after another: the second runs only when the first returned.\<close>

definition andThen :: "'a cli \<Rightarrow> ('a \<Rightarrow> 'b cli) \<Rightarrow> 'b cli" where
  "andThen p f =
     (case p of
        (t, Inl status) \<Rightarrow> (t, Inl status)
      | (t, Inr v) \<Rightarrow> (case f v of (t', r) \<Rightarrow> (t @ t', r)))"

text \<open>
  \<open>printHelpAndExit\<close>: the help screen (one event, its text left out) and \<open>os.Exit(1)\<close>.
\<close>

definition printHelpAndExit :: "'a cli" where
  "printHelpAndExit = ([PrintHelp], Inl 1)"

text \<open>
  \<open>cli.ExitIfError\<close> is declared in the cli package; it is taken as a parameter that says,
  for an error value, which lines are printed and whether the process exits (and with which
  status). \<open>exitIfError\<close> turns that answer into a run.
\<close>

type_synonym exit_policy = "error option \<Rightarrow> string list \<times> int option"

definition exitIfError :: "exit_policy \<Rightarrow> error option \<Rightarrow> unit cli" where
  "exitIfError ExitIfError e =
     (case ExitIfError e of
        (lines, Some status) \<Rightarrow> (map Print lines, Inl status)
      | (lines, None) \<Rightarrow> (map Print lines, Inr ()))"

text \<open>
  \<open>getOrExitIfNoGame\<close>. The \<open>for\<close> loop is \<open>firstNamed\<close>: the first game whose lowered
  name is the lowered keyword. \<open>strings.ToLower\<close> and \<open>cli.FmtName\<close> are parameters.
\<close>

fun firstNamed :: "(string \<Rightarrow> string) \<Rightarrow> Game list \<Rightarrow> string \<Rightarrow> Game option" where
  "firstNamed ToLower [] keyword = None"
| "firstNamed ToLower (game # games) keyword =
     (if ToLower (Name game) = ToLower keyword then Some game
      else firstNamed ToLower games keyword)"

definition getOrExitIfNoGame ::
  "(string \<Rightarrow> string) \<Rightarrow> (string \<Rightarrow> string) \<Rightarrow> Game list \<Rightarrow> string \<Rightarrow> Game cli" where
  "getOrExitIfNoGame FmtName ToLower filteredGames keyword =
     (if length filteredGames < 1
      then ([Print (''Game '' @ FmtName keyword @ '' has not found\<newline>'')], Inl 1)
      else (case firstNamed ToLower filteredGames keyword of
              Some game \<Rightarrow> ([], Inr game)
            | None \<Rightarrow> ([], Inr (filteredGames ! 0))))"

text \<open>
  What the commands need from outside \<open>main.go\<close>: the manager's answers
  (\<open>GetSortedGames\<close> as the pair it returns, \<open>RunGame\<close> as the game it leaves behind the
  pointer and the error it returns, \<open>FilterGames\<close>), the cli package's helpers and
  \<open>strings.ToLower\<close>.
\<close>

record cli_env =
  GetSortedGames :: "Game list \<times> error option"
  FilterGames :: "Game list \<Rightarrow> string option \<Rightarrow> string option \<Rightarrow> string option \<Rightarrow> bool \<Rightarrow> Game list"
  RunGame :: "Game \<Rightarrow> Game \<times> error option"
  cli_GetCommandArg :: "string list \<Rightarrow> string option"
  cli_ExitIfError :: exit_policy
  cli_FmtName :: "string \<Rightarrow> string"
  strings_ToLower :: "string \<Rightarrow> string"

text \<open>The \<open>run\<close> command.\<close>

definition run :: "cli_env \<Rightarrow> string list \<Rightarrow> unit cli" where
  "run m args =
     (case GetSortedGames m of (games, e) \<Rightarrow>
      andThen (exitIfError (cli_ExitIfError m) e) (\<lambda>_.
      case cli_GetCommandArg m args of
        None \<Rightarrow> printHelpAndExit
      | Some keyword \<Rightarrow>
          (let filteredGames = FilterGames m games (Some keyword) None None False in
           andThen (getOrExitIfNoGame (cli_FmtName m) (strings_ToLower m) filteredGames keyword) (\<lambda>game.
           andThen
             (if \<not> Installed game
              then ([Print (''Game '' @ cli_FmtName m (Title game) @ '' isn't installed.\<newline>''),
                     Print (''Please run for installation:\<newline>insteadman install '' @ Name game @
                            ''\<newline>'')],
                    Inl 1)
              else ([], Inr ())) (\<lambda>_.
           case RunGame m game of (game', e') \<Rightarrow>
           andThen ([M_RunGame game], Inr ()) (\<lambda>_.
           andThen (exitIfError (cli_ExitIfError m) e') (\<lambda>_.
           ([Print (''Running '' @ cli_FmtName m (Title game') @ '' game...\<newline>'')], Inr ()))))))))"

text \<open>
  The \<open>update\<close> command, given what \<open>m.UpdateRepositories()\<close> returns: \<open>None\<close> for the
  \<open>nil\<close> slice, otherwise the messages of the errors.
\<close>

definition update :: "string list option \<Rightarrow> unit cli" where
  "update errors =
     ([Print ''Updating repositories...\<newline>'', M_UpdateRepositories]
      @ (if errors \<noteq> None then [Print ''There are errors:\<newline>''] else [])
      @ map (\<lambda>e. Print (e @ ''\<newline>'')) (case errors of None \<Rightarrow> [] | Some es \<Rightarrow> es)
      @ [Print ''Repositories have updated.\<newline>''],
      Inr ())"

text \<open>
  \<open>main\<close> and \<open>runCommand\<close> as the calls they make to the functions of \<open>main.go\<close>, in
  order (each call listed as far as the calls before it return). A Go \<open>switch\<close> case runs its
  own statements only: an empty case does nothing and does not fall into the next one.
\<close>

datatype call =
    Call_update
  | Call_checkInterpreterAndReinit
  | Call_list
  | Call_search
  | Call_show
  | Call_run
  | Call_install
  | Call_remove
  | Call_findInterpreter
  | Call_repositories
  | Call_langs
  | Call_printConfigPath
  | Call_printVersion
  | Call_printHelpAndExit

definition runCommand :: "string \<Rightarrow> call" where
  "runCommand command =
     (if command = ''update'' then Call_update
      else if command = ''list'' then Call_list
      else if command = ''search'' then Call_search
      else if command = ''show'' then Call_show
      else if command = ''run'' then Call_run
      else if command = ''install'' then Call_install
      else if command = ''remove'' then Call_remove
      else if command = ''findinterpreter'' then Call_findInterpreter
      else if command = ''repositories'' then Call_repositories
      else if command = ''langs'' then Call_langs
      else if command = ''configpath'' then Call_printConfigPath
      else if command = ''version'' then Call_printVersion
      else Call_printHelpAndExit)"

text \<open>
  \<open>main\<close>, from \<open>m.HasDownloadedRepositories()\<close> and \<open>cli.GetCommand(argsWithoutProg)\<close>:
  the first \<open>switch\<close>, then \<open>runCommand\<close>.
\<close>

definition main :: "(string \<Rightarrow> string) \<Rightarrow> bool \<Rightarrow> string \<Rightarrow> call list" where
  "main ToLower HasDownloadedRepositories GetCommand =
     (let needRepositoriesUpdate = \<not> HasDownloadedRepositories;
          command = ToLower GetCommand
      in (if command = ''list'' then []
          else if command = ''search'' then []
          else if command = ''langs'' then (if needRepositoriesUpdate then [Call_update] else [])
          else if command = ''run'' then []
          else if command = ''install'' then [Call_checkInterpreterAndReinit]
          else [])
         @ [runCommand command])"

text \<open>
  \<open>strings.ToLower\<close> on ASCII text, for running the definitions on examples: the letters
  \<open>A\<close> to \<open>Z\<close> move to \<open>a\<close> to \<open>z\<close>, every other byte stays.
\<close>

definition ToLower_ascii :: "string \<Rightarrow> string" where
  "ToLower_ascii s =
     map (\<lambda>c. let n = (of_char c :: nat) in if 65 \<le> n \<and> n \<le> 90 then char_of (n + 32) else c) s"

section \<open>The game information screen\<close>

text \<open>
  \<open>GameInfoScreen\<close>: the game behind the pointer \<open>scr.game\<close>, whether each button is
  hidden, the errors shown by \<open>dialog.ShowError\<close>, and the number of calls of \<open>onRefresh\<close>.
  The labels, the hyperlink, the image and the progress dialog are left out: no handler reads
  them back.
\<close>

record GameInfoScreen =
  game :: Game
  installButton_hidden :: bool
  runButton_hidden :: bool
  deleteButton_hidden :: bool
  shown_errors :: "error list"
  refreshes :: nat

definition UpdateInfo :: "GameInfoScreen \<Rightarrow> Game \<Rightarrow> GameInfoScreen" where
  "UpdateInfo scr g =
     (if Installed g
      then scr\<lparr>game := g, installButton_hidden := True, runButton_hidden := False,
                deleteButton_hidden := False\<rparr>
      else scr\<lparr>game := g, installButton_hidden := False, runButton_hidden := True,
                deleteButton_hidden := True\<rparr>)"


definition deleteButton_tapped ::
  "(Game \<Rightarrow> Game \<times> error option) \<Rightarrow> bool \<Rightarrow> GameInfoScreen \<Rightarrow> GameInfoScreen" where
  "deleteButton_tapped RemoveGame onRefresh scr =
     (case RemoveGame (game scr) of (g, _) \<Rightarrow>
        (let g' = g\<lparr>Installed := False\<rparr>;
             scr' = UpdateInfo (scr\<lparr>game := g'\<rparr>) g'
         in if onRefresh then scr'\<lparr>refreshes := Suc (refreshes scr')\<rparr> else scr'))"

section \<open>The settings screen\<close>

text \<open>
  The label under the path entry, and the handler of the Check button.
  \<open>InterpreterCommand\<close> and \<open>IsBuiltinInterpreterCommand\<close> are what the manager's methods
  of these names return.
\<close>

record SettingsScreen =
  pathInfo_text :: string
  pathInfo_hidden :: bool

definition checkButton_tapped ::
  "(string \<Rightarrow> string) \<Rightarrow> exec \<Rightarrow> string \<Rightarrow> bool \<Rightarrow> SettingsScreen \<Rightarrow> SettingsScreen" where
  "checkButton_tapped ExpandInterpreterCommand Command InterpreterCommand
       IsBuiltinInterpreterCommand win =
     (case Check ExpandInterpreterCommand Command InterpreterCommand of (version, checkErr) \<Rightarrow>
        (let txt =
           (if checkErr \<noteq> None
            then (if IsBuiltinInterpreterCommand then ''INSTEAD built-in check failed!''
                  else ''INSTEAD check failed!'')
            else ''INSTEAD '' @ version @ '' has found!'')
         in win\<lparr>pathInfo_text := txt, pathInfo_hidden := False\<rparr>))"

section \<open>Example data\<close>

text \<open>Three catalog entries; two of them share a name up to letter case.\<close>

definition cat_official :: Game where
  "cat_official = \<lparr>Name = ''Cat'', Title = ''Return of the cat'', Description = [], Version = ''1.0'',
     Languages = [''ru''], RepositoryName = ''official'', Descurl = [], Size = 1000,
     Installed = False\<rparr>"

definition cat_sandbox :: Game where
  "cat_sandbox = \<lparr>Name = ''cat'', Title = ''Cat (test build)'', Description = [], Version = ''0.9'',
     Languages = [''en''], RepositoryName = ''sandbox'', Descurl = [], Size = 900,
     Installed = True\<rparr>"

definition catalog_official :: Game where
  "catalog_official = \<lparr>Name = ''catalog'', Title = ''Catalog'', Description = [], Version = ''2.1'',
     Languages = [''en''], RepositoryName = ''official'', Descurl = [], Size = 50,
     Installed = False\<rparr>"

text \<open>
  An environment for the commands: the catalog is the given list, the filter keeps every game,
  starting a game succeeds, and \<open>cli.ExitIfError\<close> prints and exits with status 1 on an
  error. Then two states of the game information screen, and a host with one working
  interpreter and one program that fails.
\<close>

definition example_env :: "Game list \<Rightarrow> cli_env" where
  "example_env games =
     \<lparr>GetSortedGames = (games, None),
      FilterGames = (\<lambda>games keyword repository lang onlyInstalled. games),
      RunGame = (\<lambda>g. (g, None)),
      cli_GetCommandArg = (\<lambda>args. case args of [c, k] \<Rightarrow> Some k | _ \<Rightarrow> None),
      cli_ExitIfError = (\<lambda>e. case e of None \<Rightarrow> ([], None) | Some _ \<Rightarrow> ([''Error''], Some 1)),
      cli_FmtName = (\<lambda>s. s),
      strings_ToLower = ToLower_ascii\<rparr>"

definition cat_screen :: GameInfoScreen where
  "cat_screen = \<lparr>game = cat_sandbox, installButton_hidden = True, runButton_hidden = False,
     deleteButton_hidden = False, shown_errors = [], refreshes = 0\<rparr>"


definition example_host :: exec where
  "example_host name args =
     (if name = ''/usr/bin/instead'' \<and> args = [''-version'']
      then Exited 0 [CHR ''3'', CHR ''.'', CHR ''3'', CHR 0x0D, CHR 0x0A]
      else if name = ''/bin/false'' then Exited 1 ''no''
      else NotStarted ErrNotExist)"

section \<open>Properties of the interpreter finder\<close>

lemma Replace_removes: "Replace [(a, []), (b, [])] s = filter (\<lambda>c. c \<noteq> a \<and> c \<noteq> b) s"
  by (induction s) auto

lemma present_iff: "\<not> IsNotExist e \<and> e = None \<longleftrightarrow> e = None"
  by (cases e) simp_all

lemma Find_Cons: "Find Stat (path # paths) = (if Stat path = None then Some path else Find Stat paths)"
  by (simp add: Let_def present_iff)

lemma Find_None_iff: "Find Stat paths = None \<longleftrightarrow> (\<forall>p \<in> set paths. Stat p \<noteq> None)"
  by (induction paths) (simp_all add: Find_Cons del: Find.simps(2))

lemma Find_find: "Find Stat paths = List.find (\<lambda>p. Stat p = None) paths"
  by (induction paths) (simp_all add: Find_Cons del: Find.simps(2))

lemma Find_Some_iff:
  "Find Stat paths = Some p \<longleftrightarrow>
     (\<exists>i < length paths. paths ! i = p \<and> Stat p = None \<and> (\<forall>j < i. Stat (paths ! j) \<noteq> None))"
  unfolding Find_find find_Some_iff by blast

text \<open>
  C5: \<open>Find\<close> returns the first path, in the order of the candidate list, whose stat
  succeeds: the path at some index \<open>i\<close> with no error, where every candidate before
  \<open>i\<close> has a stat error. Nothing but the stat result is consulted. When every candidate has
  a stat error the result is the \<open>nil\<close> pointer, not an error.
\<close>

theorem Find_first_present:
  "(Find Stat exactFilePaths = None \<longleftrightarrow> (\<forall>p \<in> set exactFilePaths. Stat p \<noteq> None)) \<and>
   (Find Stat exactFilePaths = Some p \<longleftrightarrow>
      (\<exists>i < length exactFilePaths. exactFilePaths ! i = p \<and> Stat p = None \<and>
         (\<forall>j < i. Stat (exactFilePaths ! j) \<noteq> None)))"
  using Find_None_iff [of Stat exactFilePaths] Find_Some_iff [of Stat exactFilePaths p]
  by (rule conjI)

theorem Find_first_present_witness:
  "Find (\<lambda>p. if p = ''/usr/local/bin/sdl-instead'' \<or> p = ''/usr/bin/instead'' then None
              else Some ErrNotExist)
     [''/usr/bin/sdl-instead'', ''/usr/local/bin/sdl-instead'', ''/usr/bin/instead'']
     = Some ''/usr/local/bin/sdl-instead'' \<and>
   Find (\<lambda>p. Some ErrNotExist)
     [''/usr/bin/sdl-instead'', ''/usr/local/bin/sdl-instead'', ''/usr/bin/instead''] = None"
proof -
  let ?Stat = "\<lambda>p. if p = ''/usr/local/bin/sdl-instead'' \<or> p = ''/usr/bin/instead'' then None
                    else Some ErrNotExist"
  let ?paths = "[''/usr/bin/sdl-instead'', ''/usr/local/bin/sdl-instead'', ''/usr/bin/instead'']"
  have "1 < length ?paths \<and> ?paths ! 1 = ''/usr/local/bin/sdl-instead'' \<and>
        ?Stat ''/usr/local/bin/sdl-instead'' = None \<and> (\<forall>j < 1. ?Stat (?paths ! j) \<noteq> None)"
    by simp
  then have "\<exists>i < length ?paths. ?paths ! i = ''/usr/local/bin/sdl-instead'' \<and>
        ?Stat ''/usr/local/bin/sdl-instead'' = None \<and> (\<forall>j < i. ?Stat (?paths ! j) \<noteq> None)"
    by (rule exI [of _ 1])
  then have found: "Find ?Stat ?paths = Some ''/usr/local/bin/sdl-instead''"
    using Find_first_present [of ?Stat ?paths "''/usr/local/bin/sdl-instead''"] by blast
  have "\<forall>p \<in> set ?paths. (\<lambda>p. Some ErrNotExist) p \<noteq> None"
    by simp
  then have "Find (\<lambda>p. Some ErrNotExist) ?paths = None"
    using Find_first_present [of "\<lambda>p. Some ErrNotExist" ?paths] by blast
  with found show ?thesis by (rule conjI)
qed

text \<open>
  C9: \<open>HaveBuiltIn\<close> is true exactly when the stat of the built-in relative path joined
  under \<open>CurrentDir\<close> returns no error; any stat error, a permission error as much as a
  missing path, gives false. \<open>FindBuiltin\<close> returns the joined path when the stat succeeds
  and the empty string otherwise.
\<close>

theorem HaveBuiltIn_iff_stat_succeeds:
  "(HaveBuiltIn Join builtinRelativeFilePath Stat f \<longleftrightarrow>
      Stat (Join (CurrentDir f) builtinRelativeFilePath) = None) \<and>
   (Stat (Join (CurrentDir f) builtinRelativeFilePath) = Some e \<longrightarrow>
      \<not> HaveBuiltIn Join builtinRelativeFilePath Stat f \<and>
      FindBuiltin Join builtinRelativeFilePath Stat f = []) \<and>
   (Stat (Join (CurrentDir f) builtinRelativeFilePath) = None \<longrightarrow>
      FindBuiltin Join builtinRelativeFilePath Stat f = Join (CurrentDir f) builtinRelativeFilePath)"
  by (simp add: HaveBuiltIn_def FindBuiltin_def Let_def present_iff)

theorem HaveBuiltIn_iff_stat_succeeds_witness:
  "\<not> HaveBuiltIn (\<lambda>d r. d @ ''/'' @ r) ''instead/sdl-instead''
       (\<lambda>p. if p = ''/opt/insteadman/instead/sdl-instead'' then Some ErrPermission else Some ErrNotExist)
       \<lparr>CurrentDir = ''/opt/insteadman''\<rparr> \<and>
   FindBuiltin (\<lambda>d r. d @ ''/'' @ r) ''instead/sdl-instead''
       (\<lambda>p. if p = ''/opt/insteadman/instead/sdl-instead'' then Some ErrPermission else Some ErrNotExist)
       \<lparr>CurrentDir = ''/opt/insteadman''\<rparr> = [] \<and>
   HaveBuiltIn (\<lambda>d r. d @ ''/'' @ r) ''instead/sdl-instead''
       (\<lambda>p. if p = ''/opt/insteadman/instead/sdl-instead'' then None else Some ErrNotExist)
       \<lparr>CurrentDir = ''/opt/insteadman''\<rparr> \<and>
   FindBuiltin (\<lambda>d r. d @ ''/'' @ r) ''instead/sdl-instead''
       (\<lambda>p. if p = ''/opt/insteadman/instead/sdl-instead'' then None else Some ErrNotExist)
       \<lparr>CurrentDir = ''/opt/insteadman''\<rparr> = ''/opt/insteadman/instead/sdl-instead''"
  using
    HaveBuiltIn_iff_stat_succeeds [of "\<lambda>d r. d @ ''/'' @ r" "''instead/sdl-instead''"
      "\<lambda>p. if p = ''/opt/insteadman/instead/sdl-instead'' then Some ErrPermission else Some ErrNotExist"
      "\<lparr>CurrentDir = ''/opt/insteadman''\<rparr>" ErrPermission]
    HaveBuiltIn_iff_stat_succeeds [of "\<lambda>d r. d @ ''/'' @ r" "''instead/sdl-instead''"
      "\<lambda>p. if p = ''/opt/insteadman/instead/sdl-instead'' then None else Some ErrNotExist"
      "\<lparr>CurrentDir = ''/opt/insteadman''\<rparr>" ErrPermission]
  by simp

text \<open>
  C2: \<open>Check\<close> runs the expanded command with the one argument \<open>-version\<close>. When the
  process cannot be started, or ends with a non-zero status, the version is the empty string
  and the error is not \<open>nil\<close>; when it ends with status zero, the error is \<open>nil\<close> and the
  version is the captured standard output without its line feeds and carriage returns.
\<close>

theorem Check_version:
  "(Command (ExpandInterpreterCommand command) [''-version''] = NotStarted e \<longrightarrow>
      Check ExpandInterpreterCommand Command command = ([], Some e)) \<and>
   (Command (ExpandInterpreterCommand command) [''-version''] = Exited status out \<and> status \<noteq> 0 \<longrightarrow>
      Check ExpandInterpreterCommand Command command = ([], Some (ExitError status))) \<and>
   (Command (ExpandInterpreterCommand command) [''-version''] = Exited 0 out \<longrightarrow>
      Check ExpandInterpreterCommand Command command =
        (filter (\<lambda>c. c \<noteq> CHR 0x0A \<and> c \<noteq> CHR 0x0D) out, None))"
  by (simp add: Check_def Replace_removes)

lemma Check_examples:
  "Check (\<lambda>c. c) example_host ''/usr/bin/instead'' = (''3.3'', None)"
  "Check (\<lambda>c. c) example_host ''/bin/false'' = ([], Some (ExitError 1))"
  "Check (\<lambda>c. c) example_host ''/bin/nonexistent'' = ([], Some ErrNotExist)"
  by (simp_all add: Check_def example_host_def)

theorem Check_version_witness:
  "Check (\<lambda>c. c) example_host ''/usr/bin/instead'' = (''3.3'', None) \<and>
   Check (\<lambda>c. c) example_host ''/bin/false'' = ([], Some (ExitError 1)) \<and>
   Check (\<lambda>c. c) example_host ''/bin/nonexistent'' = ([], Some ErrNotExist)"
proof -
  have started: "example_host ''/usr/bin/instead'' [''-version''] =
      Exited 0 [CHR ''3'', CHR ''.'', CHR ''3'', CHR 0x0D, CHR 0x0A]"
    by (simp add: example_host_def)
  have failed: "example_host ''/bin/false'' [''-version''] = Exited 1 ''no'' \<and> (1::int) \<noteq> 0"
    by (simp add: example_host_def)
  have missing: "example_host ''/bin/nonexistent'' [''-version''] = NotStarted ErrNotExist"
    by (simp add: example_host_def)
  have "Check (\<lambda>c. c) example_host ''/usr/bin/instead'' =
      (filter (\<lambda>c. c \<noteq> CHR 0x0A \<and> c \<noteq> CHR 0x0D) [CHR ''3'', CHR ''.'', CHR ''3'', CHR 0x0D, CHR 0x0A],
       None)"
    using started
      Check_version [where Command = example_host and ExpandInterpreterCommand = "\<lambda>c. c"
        and command = "''/usr/bin/instead''"
        and out = "[CHR ''3'', CHR ''.'', CHR ''3'', CHR 0x0D, CHR 0x0A]"]
    by blast
  moreover have "Check (\<lambda>c. c) example_host ''/bin/false'' = ([], Some (ExitError 1))"
    using failed
      Check_version [where Command = example_host and ExpandInterpreterCommand = "\<lambda>c. c"
        and command = "''/bin/false''" and out = "''no''" and status = 1]
    by blast
  moreover have "Check (\<lambda>c. c) example_host ''/bin/nonexistent'' = ([], Some ErrNotExist)"
    using missing
      Check_version [where Command = example_host and ExpandInterpreterCommand = "\<lambda>c. c"
        and command = "''/bin/nonexistent''" and e = ErrNotExist]
    by blast
  ultimately show ?thesis by simp
qed

section \<open>Properties of keyword resolution\<close>

lemma firstNamed_find:
  "firstNamed ToLower games keyword = List.find (\<lambda>g. ToLower (Name g) = ToLower keyword) games"
  by (induction games) simp_all

lemma firstNamed_None_iff:
  "firstNamed ToLower games keyword = None \<longleftrightarrow> (\<forall>g \<in> set games. ToLower (Name g) \<noteq> ToLower keyword)"
  unfolding firstNamed_find find_None_iff by blast

lemma firstNamed_Some_iff:
  "firstNamed ToLower games keyword = Some g \<longleftrightarrow>
     (\<exists>i < length games. games ! i = g \<and> ToLower (Name g) = ToLower keyword \<and>
        (\<forall>j < i. ToLower (Name (games ! j)) \<noteq> ToLower keyword))"
  unfolding firstNamed_find find_Some_iff by blast

lemma firstNamed_append:
  "\<forall>b \<in> set before. ToLower (Name b) \<noteq> ToLower keyword \<Longrightarrow>
   ToLower (Name g) = ToLower keyword \<Longrightarrow>
   firstNamed ToLower (before @ g # after) keyword = Some g"
  by (induction before) simp_all

lemma firstNamed_rename:
  "firstNamed ToLower (map (\<lambda>g. g\<lparr>RepositoryName := rename g\<rparr>) games) keyword =
   map_option (\<lambda>g. g\<lparr>RepositoryName := rename g\<rparr>) (firstNamed ToLower games keyword)"
  by (induction games) simp_all

lemma ToLower_ascii_examples:
  "ToLower_ascii ''CAT'' = ''cat''" "ToLower_ascii ''Cat'' = ''cat''" "ToLower_ascii ''cat'' = ''cat''"
  "ToLower_ascii ''catalog'' = ''catalog''" "ToLower_ascii ''ca'' = ''ca''"
  "ToLower_ascii ''list'' = ''list''" "ToLower_ascii ''Search'' = ''search''"
  "ToLower_ascii ''LANGS'' = ''langs''" "ToLower_ascii ''langs'' = ''langs''"
  "ToLower_ascii ''search'' = ''search''"
  by code_simp+

text \<open>
  C3: keyword resolution ends with "has not found" (and exit status 1) exactly when the
  candidate list is empty. On a non-empty list it returns the first candidate, in list order,
  whose name equals the keyword once both are lowered, and when no candidate has such a name
  it returns the first element of the list.
\<close>

theorem getOrExitIfNoGame_resolves:
  "((\<exists>status. snd (getOrExitIfNoGame FmtName ToLower filteredGames keyword) = Inl status) \<longleftrightarrow>
      filteredGames = []) \<and>
   (filteredGames = [] \<longrightarrow>
      getOrExitIfNoGame FmtName ToLower filteredGames keyword =
        ([Print (''Game '' @ FmtName keyword @ '' has not found\<newline>'')], Inl 1)) \<and>
   (filteredGames \<noteq> [] \<and> (\<exists>g \<in> set filteredGames. ToLower (Name g) = ToLower keyword) \<longrightarrow>
      (\<exists>i < length filteredGames.
         getOrExitIfNoGame FmtName ToLower filteredGames keyword = ([], Inr (filteredGames ! i)) \<and>
         ToLower (Name (filteredGames ! i)) = ToLower keyword \<and>
         (\<forall>j < i. ToLower (Name (filteredGames ! j)) \<noteq> ToLower keyword))) \<and>
   (filteredGames \<noteq> [] \<and> (\<forall>g \<in> set filteredGames. ToLower (Name g) \<noteq> ToLower keyword) \<longrightarrow>
      getOrExitIfNoGame FmtName ToLower filteredGames keyword = ([], Inr (hd filteredGames)))"
proof (intro conjI impI)
  show "(\<exists>status. snd (getOrExitIfNoGame FmtName ToLower filteredGames keyword) = Inl status) \<longleftrightarrow>
      filteredGames = []"
    by (cases filteredGames) (simp_all add: getOrExitIfNoGame_def split: option.splits)
next
  assume "filteredGames = []"
  then show "getOrExitIfNoGame FmtName ToLower filteredGames keyword =
        ([Print (''Game '' @ FmtName keyword @ '' has not found\<newline>'')], Inl 1)"
    by (simp add: getOrExitIfNoGame_def)
next
  assume a: "filteredGames \<noteq> [] \<and> (\<exists>g \<in> set filteredGames. ToLower (Name g) = ToLower keyword)"
  then obtain g where g: "firstNamed ToLower filteredGames keyword = Some g"
    using firstNamed_None_iff [of ToLower filteredGames keyword] by fastforce
  then obtain i where i: "i < length filteredGames" "filteredGames ! i = g"
      "ToLower (Name g) = ToLower keyword"
      "\<forall>j < i. ToLower (Name (filteredGames ! j)) \<noteq> ToLower keyword"
    unfolding firstNamed_Some_iff by blast
  have "getOrExitIfNoGame FmtName ToLower filteredGames keyword = ([], Inr g)"
    using a g by (cases filteredGames) (simp_all add: getOrExitIfNoGame_def)
  with i show "\<exists>i < length filteredGames.
         getOrExitIfNoGame FmtName ToLower filteredGames keyword = ([], Inr (filteredGames ! i)) \<and>
         ToLower (Name (filteredGames ! i)) = ToLower keyword \<and>
         (\<forall>j < i. ToLower (Name (filteredGames ! j)) \<noteq> ToLower keyword)"
    by blast
next
  assume a: "filteredGames \<noteq> [] \<and> (\<forall>g \<in> set filteredGames. ToLower (Name g) \<noteq> ToLower keyword)"
  then have "firstNamed ToLower filteredGames keyword = None"
    using firstNamed_None_iff [of ToLower filteredGames keyword] by blast
  with a show "getOrExitIfNoGame FmtName ToLower filteredGames keyword = ([], Inr (hd filteredGames))"
    by (cases filteredGames) (simp_all add: getOrExitIfNoGame_def)
qed

theorem getOrExitIfNoGame_resolves_witness:
  "getOrExitIfNoGame (\<lambda>s. s) ToLower_ascii [catalog_official, cat_official, cat_sandbox] ''CAT''
     = ([], Inr cat_official) \<and>
   getOrExitIfNoGame (\<lambda>s. s) ToLower_ascii [catalog_official, cat_official] ''ca''
     = ([], Inr catalog_official) \<and>
   getOrExitIfNoGame (\<lambda>s. s) ToLower_ascii [] ''ca''
     = ([Print ''Game ca has not found\<newline>''], Inl 1)"
proof -
  let ?gs = "[catalog_official, cat_official, cat_sandbox]"
  let ?hs = "[catalog_official, cat_official]"
  have exact: "?gs \<noteq> [] \<and> (\<exists>g \<in> set ?gs. ToLower_ascii (Name g) = ToLower_ascii ''CAT'')"
    by (simp add: cat_official_def ToLower_ascii_examples)
  have none: "?hs \<noteq> [] \<and> (\<forall>g \<in> set ?hs. ToLower_ascii (Name g) \<noteq> ToLower_ascii ''ca'')"
    by (simp add: cat_official_def catalog_official_def ToLower_ascii_examples)
  have "\<exists>i < length ?gs.
         getOrExitIfNoGame (\<lambda>s. s) ToLower_ascii ?gs ''CAT'' = ([], Inr (?gs ! i)) \<and>
         ToLower_ascii (Name (?gs ! i)) = ToLower_ascii ''CAT'' \<and>
         (\<forall>j < i. ToLower_ascii (Name (?gs ! j)) \<noteq> ToLower_ascii ''CAT'')"
    using exact getOrExitIfNoGame_resolves [of "\<lambda>s. s" ToLower_ascii ?gs "''CAT''"] by blast
  then obtain i where i: "i < length ?gs"
      "getOrExitIfNoGame (\<lambda>s. s) ToLower_ascii ?gs ''CAT'' = ([], Inr (?gs ! i))"
      "ToLower_ascii (Name (?gs ! i)) = ToLower_ascii ''CAT''"
      "\<forall>j < i. ToLower_ascii (Name (?gs ! j)) \<noteq> ToLower_ascii ''CAT''"
    by blast
  have "i = 1"
  proof -
    have "i \<noteq> 0"
    proof
      assume "i = 0"
      with i(3) show False by (simp add: catalog_official_def ToLower_ascii_examples)
    qed
    moreover have "i \<noteq> 2"
    proof
      assume "i = 2"
      then have "1 < i" by simp
      then have "ToLower_ascii (Name (?gs ! 1)) \<noteq> ToLower_ascii ''CAT''"
        using i(4) by blast
      then show False by (simp add: cat_official_def ToLower_ascii_examples)
    qed
    ultimately show ?thesis using i(1) by simp
  qed
  then have first: "getOrExitIfNoGame (\<lambda>s. s) ToLower_ascii ?gs ''CAT'' = ([], Inr cat_official)"
    using i(2) by simp
  have fallback: "getOrExitIfNoGame (\<lambda>s. s) ToLower_ascii ?hs ''ca'' = ([], Inr catalog_official)"
    using none getOrExitIfNoGame_resolves [of "\<lambda>s. s" ToLower_ascii ?hs "''ca''"] by simp
  have missing: "getOrExitIfNoGame (\<lambda>s. s) ToLower_ascii [] ''ca''
     = ([Print ''Game ca has not found\<newline>''], Inl 1)"
    using getOrExitIfNoGame_resolves [of "\<lambda>s. s" ToLower_ascii "[]" "''ca''"] by simp
  from first fallback missing show ?thesis by simp
qed

text \<open>
  C10: among several candidates whose names equal the keyword up to letter case, resolution
  returns the earliest in list order, whatever follows it. The repository plays no part:
  relabelling the repository names of the candidates relabels the result and changes nothing
  else.
\<close>

theorem getOrExitIfNoGame_earliest_duplicate:
  "(filteredGames = before @ g # after \<and>
    (\<forall>b \<in> set before. ToLower (Name b) \<noteq> ToLower keyword) \<and>
    ToLower (Name g) = ToLower keyword \<longrightarrow>
      getOrExitIfNoGame FmtName ToLower filteredGames keyword = ([], Inr g)) \<and>
   getOrExitIfNoGame FmtName ToLower (map (\<lambda>g. g\<lparr>RepositoryName := rename g\<rparr>) filteredGames) keyword =
     map_prod id (map_sum id (\<lambda>g. g\<lparr>RepositoryName := rename g\<rparr>))
       (getOrExitIfNoGame FmtName ToLower filteredGames keyword)"
proof (intro conjI impI)
  assume a: "filteredGames = before @ g # after \<and>
    (\<forall>b \<in> set before. ToLower (Name b) \<noteq> ToLower keyword) \<and>
    ToLower (Name g) = ToLower keyword"
  then have "firstNamed ToLower filteredGames keyword = Some g"
    using firstNamed_append [of before ToLower keyword g after] by simp
  with a show "getOrExitIfNoGame FmtName ToLower filteredGames keyword = ([], Inr g)"
    by (simp add: getOrExitIfNoGame_def)
next
  show "getOrExitIfNoGame FmtName ToLower (map (\<lambda>g. g\<lparr>RepositoryName := rename g\<rparr>) filteredGames) keyword =
     map_prod id (map_sum id (\<lambda>g. g\<lparr>RepositoryName := rename g\<rparr>))
       (getOrExitIfNoGame FmtName ToLower filteredGames keyword)"
    by (cases filteredGames)
      (simp_all add: getOrExitIfNoGame_def firstNamed_rename split: option.splits)
qed

theorem getOrExitIfNoGame_earliest_duplicate_witness:
  "getOrExitIfNoGame (\<lambda>s. s) ToLower_ascii [catalog_official, cat_official, cat_sandbox] ''CAT''
     = ([], Inr cat_official) \<and>
   getOrExitIfNoGame (\<lambda>s. s) ToLower_ascii [catalog_official, cat_sandbox, cat_official] ''CAT''
     = ([], Inr cat_sandbox)"
proof -
  have before: "\<forall>b \<in> set [catalog_official]. ToLower_ascii (Name b) \<noteq> ToLower_ascii ''CAT''"
    by (simp add: catalog_official_def ToLower_ascii_examples)
  have official: "ToLower_ascii (Name cat_official) = ToLower_ascii ''CAT''"
    by (simp add: cat_official_def ToLower_ascii_examples)
  have sandbox: "ToLower_ascii (Name cat_sandbox) = ToLower_ascii ''CAT''"
    by (simp add: cat_sandbox_def ToLower_ascii_examples)
  have "getOrExitIfNoGame (\<lambda>s. s) ToLower_ascii [catalog_official, cat_official, cat_sandbox] ''CAT''
     = ([], Inr cat_official)"
    using before official
      getOrExitIfNoGame_earliest_duplicate [of "[catalog_official, cat_official, cat_sandbox]"
        "[catalog_official]" cat_official "[cat_sandbox]" ToLower_ascii "''CAT''" "\<lambda>s. s"]
    by simp
  moreover have "getOrExitIfNoGame (\<lambda>s. s) ToLower_ascii [catalog_official, cat_sandbox, cat_official] ''CAT''
     = ([], Inr cat_sandbox)"
    using before sandbox
      getOrExitIfNoGame_earliest_duplicate [of "[catalog_official, cat_sandbox, cat_official]"
        "[catalog_official]" cat_sandbox "[cat_official]" ToLower_ascii "''CAT''" "\<lambda>s. s"]
    by simp
  ultimately show ?thesis by (rule conjI)
qed

section \<open>Properties of the run command\<close>

lemma getOrExitIfNoGame_Inr_trace:
  "snd (getOrExitIfNoGame FmtName ToLower filteredGames keyword) = Inr g \<Longrightarrow>
   fst (getOrExitIfNoGame FmtName ToLower filteredGames keyword) = []"
  by (auto simp: getOrExitIfNoGame_def split: if_splits option.splits)

lemma exitIfError_no_RunGame: "M_RunGame g \<notin> set (fst (exitIfError ExitIfError e))"
  by (auto simp: exitIfError_def split: prod.splits option.splits)

lemma getOrExitIfNoGame_no_RunGame:
  "M_RunGame g \<notin> set (fst (getOrExitIfNoGame FmtName ToLower filteredGames keyword))"
  by (auto simp: getOrExitIfNoGame_def split: if_splits option.splits)

lemma andThen_event:
  "x \<in> set (fst (andThen p f)) \<Longrightarrow>
   x \<in> set (fst p) \<or> (\<exists>v. snd p = Inr v \<and> x \<in> set (fst (f v)))"
  by (auto simp: andThen_def split: prod.splits sum.splits)

lemma run_RunGame_installed:
  assumes "M_RunGame g \<in> set (fst (run m args))"
  shows "Installed g \<and>
     (\<exists>keyword. cli_GetCommandArg m args = Some keyword \<and>
        snd (getOrExitIfNoGame (cli_FmtName m) (strings_ToLower m)
               (FilterGames m (fst (GetSortedGames m)) (Some keyword) None None False) keyword) = Inr g)"
  using assms unfolding run_def
  by (auto simp: printHelpAndExit_def Let_def exitIfError_no_RunGame getOrExitIfNoGame_no_RunGame
           dest!: andThen_event split: option.splits prod.splits if_splits)


lemma run_not_installed:
  assumes "snd (cli_ExitIfError m (snd (GetSortedGames m))) = None"
    and "cli_GetCommandArg m args = Some keyword"
    and "snd (getOrExitIfNoGame (cli_FmtName m) (strings_ToLower m)
               (FilterGames m (fst (GetSortedGames m)) (Some keyword) None None False) keyword) = Inr r"
    and "\<not> Installed r"
  shows "run m args =
     (map Print (fst (cli_ExitIfError m (snd (GetSortedGames m)))) @
      [Print (''Game '' @ cli_FmtName m (Title r) @ '' isn't installed.\<newline>''),
       Print (''Please run for installation:\<newline>insteadman install '' @ Name r @ ''\<newline>'')],
      Inl 1)"
proof -
  obtain games e where ge: "GetSortedGames m = (games, e)"
    by (cases "GetSortedGames m")
  obtain lines where ex: "cli_ExitIfError m e = (lines, None)"
    using assms(1) ge by (cases "cli_ExitIfError m e") simp
  have res: "getOrExitIfNoGame (cli_FmtName m) (strings_ToLower m)
               (FilterGames m games (Some keyword) None None False) keyword = ([], Inr r)"
    using assms(3) ge
      getOrExitIfNoGame_Inr_trace [of "cli_FmtName m" "strings_ToLower m"
        "FilterGames m games (Some keyword) None None False" keyword r]
    by (simp add: prod_eq_iff)
  show ?thesis
    using assms(2,4) by (simp add: run_def ge ex res andThen_def exitIfError_def)
qed

text \<open>
  C7: the \<open>run\<close> command calls \<open>RunGame\<close> only on the game that keyword resolution
  returned, and only when that game's \<open>Installed\<close> flag is true. When the resolved game is
  not installed, the command prints that the game "isn't installed" with the hint to run
  \<open>insteadman install\<close>, exits with status 1 and makes no call of \<open>RunGame\<close>.
\<close>

theorem run_only_installed:
  "(M_RunGame g \<in> set (fst (run m args)) \<longrightarrow>
      Installed g \<and>
      (\<exists>keyword. cli_GetCommandArg m args = Some keyword \<and>
         snd (getOrExitIfNoGame (cli_FmtName m) (strings_ToLower m)
                (FilterGames m (fst (GetSortedGames m)) (Some keyword) None None False) keyword) = Inr g)) \<and>
   (snd (cli_ExitIfError m (snd (GetSortedGames m))) = None \<and>
    cli_GetCommandArg m args = Some keyword \<and>
    snd (getOrExitIfNoGame (cli_FmtName m) (strings_ToLower m)
           (FilterGames m (fst (GetSortedGames m)) (Some keyword) None None False) keyword) = Inr r \<and>
    \<not> Installed r \<longrightarrow>
      run m args =
        (map Print (fst (cli_ExitIfError m (snd (GetSortedGames m)))) @
         [Print (''Game '' @ cli_FmtName m (Title r) @ '' isn't installed.\<newline>''),
          Print (''Please run for installation:\<newline>insteadman install '' @ Name r @ ''\<newline>'')],
         Inl 1) \<and>
      (\<forall>x. M_RunGame x \<notin> set (fst (run m args))))"
  (is "(?called \<longrightarrow> ?installed) \<and> (?resolved \<longrightarrow> ?refused \<and> ?never)")
proof (rule conjI; rule impI)
  assume ?called
  then show ?installed by (rule run_RunGame_installed)
next
  assume ?resolved
  then have refused: ?refused
    using run_not_installed [of m args keyword r] by blast
  have ?never
    unfolding refused by auto
  with refused show "?refused \<and> ?never" by (rule conjI)
qed

theorem run_only_installed_witness:
  "run (example_env [catalog_official, cat_official, cat_sandbox]) [''run'', ''CAT''] =
     ([Print (''Game Return of the cat isn't installed.\<newline>''),
       Print (''Please run for installation:\<newline>insteadman install Cat\<newline>'')],
      Inl 1) \<and>
   M_RunGame cat_sandbox \<in> set (fst (run (example_env [cat_sandbox]) [''run'', ''CAT''])) \<and>
   Installed cat_sandbox"
proof -
  let ?m = "example_env [catalog_official, cat_official, cat_sandbox]"
  have res: "getOrExitIfNoGame (\<lambda>s. s) ToLower_ascii [catalog_official, cat_official, cat_sandbox] ''CAT''
     = ([], Inr cat_official)"
    by (simp add: getOrExitIfNoGame_def ToLower_ascii_examples cat_official_def catalog_official_def)
  have hyp: "snd (cli_ExitIfError ?m (snd (GetSortedGames ?m))) = None \<and>
    cli_GetCommandArg ?m [''run'', ''CAT''] = Some ''CAT'' \<and>
    snd (getOrExitIfNoGame (cli_FmtName ?m) (strings_ToLower ?m)
           (FilterGames ?m (fst (GetSortedGames ?m)) (Some ''CAT'') None None False) ''CAT'') = Inr cat_official \<and>
    \<not> Installed cat_official"
    by (simp add: example_env_def res) (simp add: cat_official_def)
  have "run ?m [''run'', ''CAT''] =
        (map Print (fst (cli_ExitIfError ?m (snd (GetSortedGames ?m)))) @
         [Print (''Game '' @ cli_FmtName ?m (Title cat_official) @ '' isn't installed.\<newline>''),
          Print (''Please run for installation:\<newline>insteadman install '' @ Name cat_official @ ''\<newline>'')],
         Inl 1)"
    using hyp run_only_installed [of _ ?m "[''run'', ''CAT'']" "''CAT''" cat_official] by blast
  then have first: "run ?m [''run'', ''CAT''] =
     ([Print (''Game Return of the cat isn't installed.\<newline>''),
       Print (''Please run for installation:\<newline>insteadman install Cat\<newline>'')],
      Inl 1)"
    by (simp add: example_env_def cat_official_def)
  have res2: "getOrExitIfNoGame (\<lambda>s. s) ToLower_ascii [cat_sandbox] ''CAT'' = ([], Inr cat_sandbox)"
    by (simp add: getOrExitIfNoGame_def ToLower_ascii_examples cat_sandbox_def)
  have "Installed cat_sandbox" by (simp add: cat_sandbox_def)
  then have launched: "M_RunGame cat_sandbox \<in> set (fst (run (example_env [cat_sandbox]) [''run'', ''CAT'']))"
    by (simp add: run_def example_env_def res2 andThen_def exitIfError_def)
  then have "Installed cat_sandbox"
    using run_only_installed [of cat_sandbox "example_env [cat_sandbox]" "[''run'', ''CAT'']"] by blast
  with first launched show ?thesis by simp
qed

section \<open>The first switch of main\<close>

lemma update_syncs_and_returns:
  "M_UpdateRepositories \<in> set (fst (update errors)) \<and> snd (update errors) = Inr ()"
  by (simp add: update_def)

lemma main_list_or_search:
  "ToLower GetCommand = ''list'' \<or> ToLower GetCommand = ''search'' \<Longrightarrow>
   main ToLower HasDownloadedRepositories GetCommand = [runCommand (ToLower GetCommand)]"
  by (auto simp: main_def)

lemma main_langs:
  "ToLower GetCommand = ''langs'' \<Longrightarrow>
   main ToLower HasDownloadedRepositories GetCommand =
     (if HasDownloadedRepositories then [Call_langs] else [Call_update, Call_langs])"
  by (simp add: main_def runCommand_def)

text \<open>
  C1: with no repository data downloaded, \<open>main\<close> calls \<open>update\<close> before the command
  only for \<open>langs\<close>. For \<open>list\<close> and for \<open>search\<close> the first \<open>switch\<close> selects an
  empty case, so the command runs with no update before it. With data present no update is made.
\<close>

theorem main_update_before_langs_only:
  "main ToLower_ascii False ''list'' = [Call_list] \<and>
   main ToLower_ascii False ''search'' = [Call_search] \<and>
   main ToLower_ascii False ''langs'' = [Call_update, Call_langs] \<and>
   main ToLower_ascii True ''langs'' = [Call_langs]"
  by (simp add: main_def runCommand_def ToLower_ascii_examples)

section \<open>Properties of the game information screen\<close>



lemma deleteButton_tapped_clears_flag:
  "\<not> Installed (game (deleteButton_tapped RemoveGame onRefresh scr))"
  by (simp add: deleteButton_tapped_def UpdateInfo_def Let_def split: prod.splits)

text \<open>
  C4: the delete handler drops the error of \<open>RemoveGame\<close>. On a screen showing an installed
  game, with a removal that fails on a permission error and leaves the game as it was, the
  handler still sets \<open>Installed\<close> to false, shows the install button, hides the run and
  delete buttons, and shows no error.
\<close>

theorem deleteButton_tapped_ignores_error:
  "Installed (game cat_screen) \<and>
   deleteButton_tapped (\<lambda>g. (g, Some ErrPermission)) True cat_screen =
     \<lparr>game = cat_sandbox\<lparr>Installed := False\<rparr>, installButton_hidden = False,
      runButton_hidden = True, deleteButton_hidden = True, shown_errors = [], refreshes = 1\<rparr>"
  by (simp add: deleteButton_tapped_def UpdateInfo_def cat_screen_def cat_sandbox_def)

section \<open>Properties of the settings screen\<close>

text \<open>
  C8: after the Check button the label is shown. When \<open>Check\<close> fails, its text is
  "INSTEAD built-in check failed!" exactly when the manager says the interpreter command is
  the built-in one, and "INSTEAD check failed!" otherwise. When \<open>Check\<close> succeeds, the
  text is the success message around the version string it returned.
\<close>

theorem checkButton_tapped_message:
  "(snd (Check ExpandInterpreterCommand Command InterpreterCommand) \<noteq> None \<longrightarrow>
      pathInfo_text (checkButton_tapped ExpandInterpreterCommand Command InterpreterCommand
                       IsBuiltinInterpreterCommand win) =
        (if IsBuiltinInterpreterCommand then ''INSTEAD built-in check failed!''
         else ''INSTEAD check failed!'') \<and>
      (pathInfo_text (checkButton_tapped ExpandInterpreterCommand Command InterpreterCommand
                       IsBuiltinInterpreterCommand win) = ''INSTEAD built-in check failed!''
         \<longleftrightarrow> IsBuiltinInterpreterCommand)) \<and>
   (Check ExpandInterpreterCommand Command InterpreterCommand = (version, None) \<longrightarrow>
      pathInfo_text (checkButton_tapped ExpandInterpreterCommand Command InterpreterCommand
                       IsBuiltinInterpreterCommand win) = ''INSTEAD '' @ version @ '' has found!'') \<and>
   \<not> pathInfo_hidden (checkButton_tapped ExpandInterpreterCommand Command InterpreterCommand
                        IsBuiltinInterpreterCommand win)"
  by (auto simp: checkButton_tapped_def Let_def split: prod.splits)

theorem checkButton_tapped_message_witness:
  "pathInfo_text (checkButton_tapped (\<lambda>c. c) example_host ''/bin/false'' True
                    \<lparr>pathInfo_text = [], pathInfo_hidden = True\<rparr>) = ''INSTEAD built-in check failed!'' \<and>
   pathInfo_text (checkButton_tapped (\<lambda>c. c) example_host ''/bin/nonexistent'' False
                    \<lparr>pathInfo_text = [], pathInfo_hidden = True\<rparr>) = ''INSTEAD check failed!'' \<and>
   pathInfo_text (checkButton_tapped (\<lambda>c. c) example_host ''/usr/bin/instead'' False
                    \<lparr>pathInfo_text = [], pathInfo_hidden = True\<rparr>) = ''INSTEAD 3.3 has found!''"
proof -
  let ?win = "\<lparr>pathInfo_text = [], pathInfo_hidden = True\<rparr>"
  have failed: "snd (Check (\<lambda>c. c) example_host ''/bin/false'') \<noteq> None"
    by (simp add: Check_examples)
  have missing: "snd (Check (\<lambda>c. c) example_host ''/bin/nonexistent'') \<noteq> None"
    by (simp add: Check_examples)
  have "pathInfo_text (checkButton_tapped (\<lambda>c. c) example_host ''/bin/false'' True ?win) =
      ''INSTEAD built-in check failed!''"
    using failed
      checkButton_tapped_message [where ExpandInterpreterCommand = "\<lambda>c. c" and Command = example_host
        and InterpreterCommand = "''/bin/false''" and IsBuiltinInterpreterCommand = True
        and win = ?win]
    by simp
  moreover have "pathInfo_text (checkButton_tapped (\<lambda>c. c) example_host ''/bin/nonexistent'' False ?win) =
      ''INSTEAD check failed!''"
    using missing
      checkButton_tapped_message [where ExpandInterpreterCommand = "\<lambda>c. c" and Command = example_host
        and InterpreterCommand = "''/bin/nonexistent''" and IsBuiltinInterpreterCommand = False
        and win = ?win]
    by simp
  moreover have "pathInfo_text (checkButton_tapped (\<lambda>c. c) example_host ''/usr/bin/instead'' False ?win) =
      ''INSTEAD 3.3 has found!''"
    using Check_examples(1)
      checkButton_tapped_message [where ExpandInterpreterCommand = "\<lambda>c. c" and Command = example_host
        and InterpreterCommand = "''/usr/bin/instead''" and IsBuiltinInterpreterCommand = False
        and win = ?win and version = "''3.3''"]
    by simp
  ultimately show ?thesis by simp
qed

end
